theory Spec2Isabelle
  imports Complex_Main
begin

section \<open>JavaScript strings\<close>

text \<open>
  Strings are lists of characters. A HOL character is one byte, read here as the code
  unit of a JavaScript string in the range 0 to 255 (ASCII and Latin-1). On that range
  \<open>String.prototype.toLowerCase\<close> adds 32 to the letters A to Z (65 to 90) and to the
  accented capitals 192 to 222 other than the multiplication sign 215, and keeps every
  other character.
\<close>

definition lower_char :: "char \<Rightarrow> char" where
  "lower_char c =
     (let n = (of_char c :: nat)
      in if (65 \<le> n \<and> n \<le> 90) \<or> (192 \<le> n \<and> n \<le> 222 \<and> n \<noteq> 215)
         then char_of (n + 32) else c)"

definition toLowerCase :: "string \<Rightarrow> string" where
  "toLowerCase s = map lower_char s"

text \<open>\<open>s.startsWith(t)\<close> and \<open>s.includes(t)\<close>: \<open>t\<close> occurs in \<open>s\<close> at the first
  position, respectively at some position.\<close>

fun startsWith :: "string \<Rightarrow> string \<Rightarrow> bool" where
  "startsWith s [] = True"
| "startsWith [] (d # t) = False"
| "startsWith (c # s) (d # t) = (c = d \<and> startsWith s t)"

fun includes_str :: "string \<Rightarrow> string \<Rightarrow> bool" where
  "includes_str [] t = (t = [])"
| "includes_str (c # s) t = (startsWith (c # s) t \<or> includes_str s t)"

text \<open>
  \<open>String.prototype.trim\<close> removes white space at both ends. Among the characters 0 to
  255 the white space and line terminators of ECMAScript are tab, line feed, vertical
  tab, form feed, carriage return (9 to 13), space (32) and no-break space (160).
\<close>

definition is_space :: "char \<Rightarrow> bool" where
  "is_space c = (let n = (of_char c :: nat) in (9 \<le> n \<and> n \<le> 13) \<or> n = 32 \<or> n = 160)"

definition trim :: "string \<Rightarrow> string" where
  "trim s = rev (dropWhile is_space (rev (dropWhile is_space s)))"

text \<open>Decimal rendering of a natural number, as a template literal \<open>`${n}`\<close> prints it.\<close>

definition digit_char :: "nat \<Rightarrow> char" where
  "digit_char d = char_of (48 + d)"

function show_nat :: "nat \<Rightarrow> string" where
  "show_nat n = (if n < 10 then [digit_char n] else show_nat (n div 10) @ [digit_char (n mod 10)])"
  by pat_completeness auto
termination
  by (relation "measure (\<lambda>n. n)") auto

declare show_nat.simps [simp del]

section \<open>NaturalLanguageQuery.js\<close>

subsection \<open>generateMockSQL\<close>

definition sql_avg :: string where
  "sql_avg = ''SELECT category, AVG(score) as average_score FROM survey_responses GROUP BY category''"

definition sql_count :: string where
  "sql_count = ''SELECT COUNT(*) as total_count FROM survey_responses WHERE condition = '' @ [CHR 39] @ ''value'' @ [CHR 39]"

definition sql_top :: string where
  "sql_top = ''SELECT item, COUNT(*) as frequency FROM data_table GROUP BY item ORDER BY frequency DESC LIMIT 5''"

definition sql_default :: string where
  "sql_default = ''SELECT * FROM survey_responses WHERE relevant_condition = '' @ [CHR 39] @ ''value'' @ [CHR 39] @ '' ORDER BY created_at DESC''"

definition generateMockSQL :: "string \<Rightarrow> string" where
  "generateMockSQL query =
     (let lowerQuery = toLowerCase query
      in if includes_str lowerQuery ''average'' \<or> includes_str lowerQuery ''avg'' then sql_avg
         else if includes_str lowerQuery ''count'' \<or> includes_str lowerQuery ''how many'' then sql_count
         else if includes_str lowerQuery ''top'' \<or> includes_str lowerQuery ''most'' then sql_top
         else sql_default)"

subsection \<open>generateMockResults\<close>

text \<open>
  A result row is an object literal: its keys in the order they are written, each with a
  number or a string. The decimal literals of the source (\<open>4.2\<close>) are kept as exact
  fractions.
\<close>

datatype jsvalue = JNum rat | JStr string

type_synonym row = "(string \<times> jsvalue) list"

record query_results =
  res_data :: "row list"
  res_count :: nat

text \<open>
  \<open>Math.random()\<close> reads a source of random numbers outside the component. The source
  uses it only in the expression \<open>Math.floor(Math.random() * n)\<close>, with \<open>n\<close> 1000 or 5.
  The random source is made an argument: \<open>rnd k n\<close> is the value of that expression at
  the \<open>k\<close>-th call of \<open>Math.random()\<close> made by one invocation, an integer from 0 to
  \<open>n - 1\<close>. The count branch draws once, the default branch once per row, in row order.
\<close>

type_synonym random_source = "nat \<Rightarrow> int \<Rightarrow> int"

definition sample_row :: "random_source \<Rightarrow> nat \<Rightarrow> row" where
  "sample_row rnd i =
     [(''id'', JNum (of_nat (i + 1))),
      (''value'', JStr (''Sample data '' @ show_nat (i + 1))),
      (''score'', JNum (of_int (rnd i 5 + 1)))]"

definition generateMockResults :: "random_source \<Rightarrow> string \<Rightarrow> query_results" where
  "generateMockResults rnd query =
     (let lowerQuery = toLowerCase query
      in if includes_str lowerQuery ''average'' \<or> includes_str lowerQuery ''avg'' then
           \<lparr>res_data =
              [ [(''category'', JStr ''Product''), (''average_score'', JNum (42 / 10))],
               [(''category'', JStr ''Service''), (''average_score'', JNum (45 / 10))],
               [(''category'', JStr ''Support''), (''average_score'', JNum (41 / 10))] ],
            res_count = 3\<rparr>
         else if includes_str lowerQuery ''count'' \<or> includes_str lowerQuery ''how many'' then
           \<lparr>res_data = [ [(''total_count'', JNum (of_int (rnd 0 1000 + 100)))] ],
            res_count = 1\<rparr>
         else
           \<lparr>res_data = map (sample_row rnd) [0..<5], res_count = 5\<rparr>)"

text \<open>
  Two random sources a run can meet: \<open>Math.random()\<close> returning 0 at every call, and
  returning one half at every call. The products \<open>0.5 * 1000\<close> and \<open>0.5 * 5\<close> are exact,
  so the expression gives 500 and 2.
\<close>

definition draws_zero :: random_source where
  "draws_zero k n = 0"

definition draws_half :: random_source where
  "draws_half k n = n div 2"

subsection \<open>The query history and handleSubmit\<close>

record query_entry =
  entry_id :: nat
  entry_query :: string
  entry_sql :: "string option"
  entry_results :: "query_results option"
  entry_status :: string
  entry_error :: "string option"
  entry_timestamp :: string

text \<open>The component's state: the four \<open>useState\<close> cells.\<close>

record nlq_state =
  query :: string
  queries :: "query_entry list"
  isLoading :: bool
  selectedQuery :: "query_entry option"

text \<open>The two clock readings of one submission: \<open>Date.now()\<close> and
  \<open>new Date().toISOString()\<close>.\<close>

record clock =
  date_now :: nat
  iso_string :: string

text \<open>
  \<open>handleSubmit\<close> is asynchronous. Its first part runs up to the \<open>await\<close>: it returns at
  once on a blank query, otherwise it sets the loading flag, puts the new entry in front
  of the history and clears the input. What the second part needs is kept in a
  \<open>pending\<close> value: the id of the new entry and the \<open>query\<close> the closure captured (the
  text as typed, not trimmed).
\<close>

record pending =
  pending_id :: nat
  pending_query :: string

definition newQuery :: "clock \<Rightarrow> string \<Rightarrow> query_entry" where
  "newQuery clk q =
     \<lparr>entry_id = date_now clk, entry_query = trim q, entry_sql = None,
      entry_results = None, entry_status = ''processing'', entry_error = None,
      entry_timestamp = iso_string clk\<rparr>"

definition handleSubmit_start :: "clock \<Rightarrow> nlq_state \<Rightarrow> nlq_state \<times> pending option" where
  "handleSubmit_start clk st =
     (if trim (query st) = [] then (st, None)
      else (st\<lparr>isLoading := True,
                queries := newQuery clk (query st) # queries st,
                query := []\<rparr>,
            Some \<lparr>pending_id = date_now clk, pending_query = query st\<rparr>))"

text \<open>
  The second part runs when the awaited promise settles. When it resolves, the \<open>try\<close>
  block runs to its end; when it rejects, the \<open>catch\<close> block runs. Both update the
  history with \<open>prev.map\<close>, and \<open>finally\<close> clears the loading flag.
\<close>

datatype settlement = Resolved | Rejected

definition complete_entry :: "nat \<Rightarrow> string \<Rightarrow> query_results \<Rightarrow> query_entry \<Rightarrow> query_entry" where
  "complete_entry nid mockSQL mockResults q =
     (if entry_id q = nid
      then q\<lparr>entry_sql := Some mockSQL, entry_results := Some mockResults,
             entry_status := ''completed''\<rparr>
      else q)"

definition fail_entry :: "nat \<Rightarrow> query_entry \<Rightarrow> query_entry" where
  "fail_entry nid q =
     (if entry_id q = nid
      then q\<lparr>entry_status := ''failed'', entry_error := Some ''Failed to process query''\<rparr>
      else q)"

definition handleSubmit_finish ::
  "random_source \<Rightarrow> settlement \<Rightarrow> pending \<Rightarrow> nlq_state \<Rightarrow> nlq_state" where
  "handleSubmit_finish rnd outcome p st =
     (case outcome of
        Resolved \<Rightarrow>
          (let mockSQL = generateMockSQL (pending_query p);
               mockResults = generateMockResults rnd (pending_query p)
           in st\<lparr>queries := map (complete_entry (pending_id p) mockSQL mockResults) (queries st),
                 isLoading := False\<rparr>)
      | Rejected \<Rightarrow>
          st\<lparr>queries := map (fail_entry (pending_id p)) (queries st), isLoading := False\<rparr>)"

text \<open>The two outputs of the query pipeline for one question.\<close>

definition process_query :: "random_source \<Rightarrow> string \<Rightarrow> string \<times> query_results" where
  "process_query rnd q = (generateMockSQL q, generateMockResults rnd q)"

subsection \<open>Vocabulary of the properties\<close>

text \<open>The three keyword tests the two generators make on the lower-cased question.\<close>

definition mentions_average :: "string \<Rightarrow> bool" where
  "mentions_average q =
     (includes_str (toLowerCase q) ''average'' \<or> includes_str (toLowerCase q) ''avg'')"

definition mentions_count :: "string \<Rightarrow> bool" where
  "mentions_count q =
     (includes_str (toLowerCase q) ''count'' \<or> includes_str (toLowerCase q) ''how many'')"

definition mentions_top :: "string \<Rightarrow> bool" where
  "mentions_top q =
     (includes_str (toLowerCase q) ''top'' \<or> includes_str (toLowerCase q) ''most'')"

definition sql_templates :: "string list" where
  "sql_templates = [sql_avg, sql_count, sql_top, sql_default]"






section \<open>The survey builder\<close>

text \<open>
  The component \<open>SurveyBuilder\<close> keeps the list of fields of the survey and the field
  selected for the properties panel. The palette \<open>FIELD_TYPES\<close> is kept without its
  icons, which are only displayed.
\<close>

record palette_entry =
  palette_type :: string
  palette_label :: string

definition FIELD_TYPES :: "palette_entry list" where
  "FIELD_TYPES =
     [\<lparr>palette_type = ''text'', palette_label = ''Text Input''\<rparr>,
      \<lparr>palette_type = ''textarea'', palette_label = ''Text Area''\<rparr>,
      \<lparr>palette_type = ''number'', palette_label = ''Number''\<rparr>,
      \<lparr>palette_type = ''email'', palette_label = ''Email''\<rparr>,
      \<lparr>palette_type = ''select'', palette_label = ''Dropdown''\<rparr>,
      \<lparr>palette_type = ''radio'', palette_label = ''Radio Buttons''\<rparr>,
      \<lparr>palette_type = ''checkbox'', palette_label = ''Checkboxes''\<rparr>,
      \<lparr>palette_type = ''date'', palette_label = ''Date''\<rparr>,
      \<lparr>palette_type = ''rating'', palette_label = ''Rating''\<rparr>]"

record field_option =
  option_value :: string
  option_label :: string

record validation =
  validation_min :: "rat option"
  validation_max :: "rat option"
  validation_maxLength :: "int option"

text \<open>A field; \<open>field_options = None\<close> is \<open>options: undefined\<close>.\<close>

record field =
  field_id :: string
  field_type :: string
  field_label :: string
  field_required :: bool
  field_options :: "field_option list option"
  field_validation :: validation

text \<open>The state cell \<open>fields\<close> is the record field \<open>builder_fields\<close>.\<close>

record builder_state =
  builder_fields :: "field list"
  selectedField :: "field option"

text \<open>
  The \<open>updates\<close> object of \<open>updateField\<close>: each key is present (\<open>Some\<close>) or absent. The
  callers in the file pass the keys \<open>label\<close>, \<open>required\<close>, \<open>validation\<close> and \<open>options\<close>.
  \<open>merge_field f u\<close> is the spread \<open>{ ...field, ...updates }\<close>.
\<close>

record field_updates =
  updates_label :: "string option"
  updates_required :: "bool option"
  updates_options :: "field_option list option"
  updates_validation :: "validation option"

definition no_updates :: field_updates where
  "no_updates =
     \<lparr>updates_label = None, updates_required = None, updates_options = None,
      updates_validation = None\<rparr>"

definition merge_field :: "field \<Rightarrow> field_updates \<Rightarrow> field" where
  "merge_field f u =
     f\<lparr>field_label := (case updates_label u of None \<Rightarrow> field_label f | Some l \<Rightarrow> l),
       field_required := (case updates_required u of None \<Rightarrow> field_required f | Some r \<Rightarrow> r),
       field_options := (case updates_options u of None \<Rightarrow> field_options f | Some os \<Rightarrow> Some os),
       field_validation :=
         (case updates_validation u of None \<Rightarrow> field_validation f | Some v \<Rightarrow> v)\<rparr>"

record option_updates =
  updates_option_value :: "string option"
  updates_option_label :: "string option"

definition merge_option :: "field_option \<Rightarrow> option_updates \<Rightarrow> field_option" where
  "merge_option opt u =
     opt\<lparr>option_value := (case updates_option_value u of None \<Rightarrow> option_value opt | Some v \<Rightarrow> v),
         option_label := (case updates_option_label u of None \<Rightarrow> option_label opt | Some l \<Rightarrow> l)\<rparr>"

subsection \<open>handleDragEnd\<close>

record drag_location =
  droppableId :: string
  index :: nat

text \<open>The result the drag library reports; \<open>destination = None\<close> is a drop outside
  every droppable.\<close>

record drop_result =
  source :: drag_location
  destination :: "drag_location option"

text \<open>
  \<open>option_bearing\<close> is the test the source makes on the type of a new field.
  \<open>newField\<close> is the field made for a palette entry at clock reading \<open>now\<close>.
\<close>

definition option_bearing :: "string \<Rightarrow> bool" where
  "option_bearing t = (t = ''select'' \<or> t = ''radio'' \<or> t = ''checkbox'')"

definition newField :: "palette_entry \<Rightarrow> nat \<Rightarrow> field" where
  "newField fieldType now =
     \<lparr>field_id = ''field_'' @ show_nat now,
      field_type = palette_type fieldType,
      field_label = ''New '' @ palette_label fieldType,
      field_required = False,
      field_options =
        (if palette_type fieldType = ''select'' \<or> palette_type fieldType = ''radio''
            \<or> palette_type fieldType = ''checkbox''
         then Some [\<lparr>option_value = ''option1'', option_label = ''Option 1''\<rparr>]
         else None),
      field_validation =
        \<lparr>validation_min = None, validation_max = None, validation_maxLength = None\<rparr>\<rparr>"

text \<open>\<open>xs.splice(i, 0, x)\<close>: insert \<open>x\<close> before position \<open>i\<close>, at the end when \<open>i\<close> is
  beyond the last position.\<close>

definition splice_insert :: "nat \<Rightarrow> 'a \<Rightarrow> 'a list \<Rightarrow> 'a list" where
  "splice_insert i x xs = take i xs @ [x] @ drop i xs"

text \<open>
  The drag library reports the positions of draggables that exist. For other positions
  the source fails: a palette position beyond the palette makes \<open>fieldType\<close> undefined
  and \<open>fieldType.type\<close> throws a \<open>TypeError\<close> before any state is set; a field position
  beyond the list makes \<open>splice(source.index, 1)\<close> return nothing, and the source then
  inserts \<open>undefined\<close> into the list, which is no list of fields any more.
\<close>

datatype failure = TypeError | UndefinedField

definition handleDragEnd :: "drop_result \<Rightarrow> nat \<Rightarrow> field list \<Rightarrow> failure + field list" where
  "handleDragEnd result now fs =
     (case destination result of
        None \<Rightarrow> Inr fs
      | Some dest \<Rightarrow>
          if droppableId (source result) = ''field-types'' \<and> droppableId dest = ''survey-fields''
          then (if index (source result) < length FIELD_TYPES
                then Inr (splice_insert (index dest)
                            (newField (FIELD_TYPES ! index (source result)) now) fs)
                else Inl TypeError)
          else if droppableId (source result) = ''survey-fields''
                  \<and> droppableId dest = ''survey-fields''
          then (if index (source result) < length fs
                then Inr (splice_insert (index dest) (fs ! index (source result))
                            (take (index (source result)) fs
                             @ drop (Suc (index (source result))) fs))
                else Inl UndefinedField)
          else Inr fs)"

subsection \<open>updateField, deleteField and the option operations\<close>

definition updateField :: "string \<Rightarrow> field_updates \<Rightarrow> field list \<Rightarrow> field list" where
  "updateField fieldId updates fs =
     map (\<lambda>f. if field_id f = fieldId then merge_field f updates else f) fs"

definition deleteField :: "string \<Rightarrow> builder_state \<Rightarrow> builder_state" where
  "deleteField fieldId st =
     \<lparr>builder_fields = filter (\<lambda>f. field_id f \<noteq> fieldId) (builder_fields st),
      selectedField =
        (case selectedField st of
           None \<Rightarrow> None
         | Some f \<Rightarrow> if field_id f = fieldId then None else Some f)\<rparr>"

definition addOption :: "string \<Rightarrow> field list \<Rightarrow> field list" where
  "addOption fieldId fs =
     (case find (\<lambda>f. field_id f = fieldId) fs of
        None \<Rightarrow> fs
      | Some f \<Rightarrow>
          (case field_options f of
             None \<Rightarrow> fs
           | Some os \<Rightarrow>
               updateField fieldId
                 (no_updates\<lparr>updates_options :=
                    Some (os @ [\<lparr>option_value = ''option'' @ show_nat (length os + 1),
                                 option_label = ''Option '' @ show_nat (length os + 1)\<rparr>])\<rparr>)
                 fs))"

definition updateOption :: "string \<Rightarrow> nat \<Rightarrow> option_updates \<Rightarrow> field list \<Rightarrow> field list" where
  "updateOption fieldId optionIndex updates fs =
     (case find (\<lambda>f. field_id f = fieldId) fs of
        None \<Rightarrow> fs
      | Some f \<Rightarrow>
          (case field_options f of
             None \<Rightarrow> fs
           | Some os \<Rightarrow>
               updateField fieldId
                 (no_updates\<lparr>updates_options :=
                    Some (map (\<lambda>(i, opt). if i = optionIndex then merge_option opt updates else opt)
                            (enumerate 0 os))\<rparr>)
                 fs))"

definition removeOption :: "string \<Rightarrow> nat \<Rightarrow> field list \<Rightarrow> field list" where
  "removeOption fieldId optionIndex fs =
     (case find (\<lambda>f. field_id f = fieldId) fs of
        None \<Rightarrow> fs
      | Some f \<Rightarrow>
          (case field_options f of
             None \<Rightarrow> fs
           | Some os \<Rightarrow>
               if length os > 1
               then updateField fieldId
                      (no_updates\<lparr>updates_options :=
                         Some (map snd (filter (\<lambda>(i, opt). i \<noteq> optionIndex) (enumerate 0 os)))\<rparr>)
                      fs
               else fs))"

subsection \<open>Builder operations in sequence\<close>

text \<open>
  What a user of the builder can make it do: drop a dragged item, click a field, change
  the label, the required flag or the validation of a field in the properties panel
  (the three calls of \<open>onUpdate\<close>), delete a field, and add, edit or remove an option.
  The operations carry the field id they are called with. An operation that fails ends
  the run.
\<close>

datatype builder_event =
    DragEnd drop_result nat
  | ClickField nat
  | SetLabel string string
  | SetRequired string bool
  | SetValidation string validation
  | DeleteField string
  | AddOption string
  | UpdateOption string nat option_updates
  | RemoveOption string nat

fun builder_step :: "builder_event \<Rightarrow> builder_state \<Rightarrow> failure + builder_state" where
  "builder_step (DragEnd result now) st =
     (case handleDragEnd result now (builder_fields st) of
        Inl e \<Rightarrow> Inl e
      | Inr fs \<Rightarrow> Inr (st\<lparr>builder_fields := fs\<rparr>))"
| "builder_step (ClickField i) st =
     Inr (if i < length (builder_fields st) then st\<lparr>selectedField := Some (builder_fields st ! i)\<rparr> else st)"
| "builder_step (SetLabel fieldId l) st =
     Inr (st\<lparr>builder_fields := updateField fieldId (no_updates\<lparr>updates_label := Some l\<rparr>) (builder_fields st)\<rparr>)"
| "builder_step (SetRequired fieldId r) st =
     Inr (st\<lparr>builder_fields := updateField fieldId (no_updates\<lparr>updates_required := Some r\<rparr>) (builder_fields st)\<rparr>)"
| "builder_step (SetValidation fieldId v) st =
     Inr (st\<lparr>builder_fields := updateField fieldId (no_updates\<lparr>updates_validation := Some v\<rparr>) (builder_fields st)\<rparr>)"
| "builder_step (DeleteField fieldId) st = Inr (deleteField fieldId st)"
| "builder_step (AddOption fieldId) st = Inr (st\<lparr>builder_fields := addOption fieldId (builder_fields st)\<rparr>)"
| "builder_step (UpdateOption fieldId i u) st =
     Inr (st\<lparr>builder_fields := updateOption fieldId i u (builder_fields st)\<rparr>)"
| "builder_step (RemoveOption fieldId i) st =
     Inr (st\<lparr>builder_fields := removeOption fieldId i (builder_fields st)\<rparr>)"

fun run_events :: "builder_event list \<Rightarrow> builder_state \<Rightarrow> failure + builder_state" where
  "run_events [] st = Inr st"
| "run_events (e # es) st =
     (case builder_step e st of Inl x \<Rightarrow> Inl x | Inr st' \<Rightarrow> run_events es st')"

text \<open>
  The invariant: no field has an empty option list, and every select, radio or checkbox
  field has an option list. \<open>has_an_option\<close> is what it gives for the fields of these
  three types.
\<close>

definition field_ok :: "field \<Rightarrow> bool" where
  "field_ok f =
     (field_options f \<noteq> Some [] \<and> (option_bearing (field_type f) \<longrightarrow> field_options f \<noteq> None))"

definition builder_inv :: "field list \<Rightarrow> bool" where
  "builder_inv fs = list_all field_ok fs"

definition has_an_option :: "field \<Rightarrow> bool" where
  "has_an_option f =
     (case field_options f of None \<Rightarrow> False | Some os \<Rightarrow> 1 \<le> length os)"

definition empty_builder :: builder_state where
  "empty_builder = \<lparr>builder_fields = [], selectedField = None\<rparr>"

definition drop_from_palette :: "nat \<Rightarrow> nat \<Rightarrow> drop_result" where
  "drop_from_palette i j =
     \<lparr>source = \<lparr>droppableId = ''field-types'', index = i\<rparr>,
      destination = Some \<lparr>droppableId = ''survey-fields'', index = j\<rparr>\<rparr>"

text \<open>A run from the empty builder: a dropdown is dropped in, gets a second option,
  and its options are removed three times, the last time at a position that does not
  exist.\<close>

definition example_events :: "builder_event list" where
  "example_events =
     [DragEnd (drop_from_palette 4 0) 17, AddOption ''field_17'',
      RemoveOption ''field_17'' 0, RemoveOption ''field_17'' 0, RemoveOption ''field_17'' 5]"

definition example_result :: builder_state where
  "example_result =
     \<lparr>builder_fields =
        [\<lparr>field_id = ''field_17'', field_type = ''select'', field_label = ''New Dropdown'',
          field_required = False,
          field_options = Some [\<lparr>option_value = ''option2'', option_label = ''Option 2''\<rparr>],
          field_validation =
            \<lparr>validation_min = None, validation_max = None, validation_maxLength = None\<rparr>\<rparr>],
      selectedField = None\<rparr>"

subsection \<open>Example states\<close>

text \<open>The third entry of the history the component loads when it mounts, a clock
  reading, a state whose input holds only white space and a state with a question typed
  in.\<close>

definition old_entry :: query_entry where
  "old_entry =
     \<lparr>entry_id = 3, entry_query = ''How many responses were submitted last week?'',
      entry_sql = Some ''SELECT COUNT(*) as total_responses FROM survey_responses WHERE created_at >= DATE_SUB(NOW(), INTERVAL 1 WEEK)'',
      entry_results = Some \<lparr>res_data = [ [(''total_responses'', JNum 247)] ], res_count = 1\<rparr>,
      entry_status = ''completed'', entry_error = None,
      entry_timestamp = ''2024-01-15T07:30:00.000Z''\<rparr>"

definition example_clock :: clock where
  "example_clock = \<lparr>date_now = 42, iso_string = ''2024-01-15T10:30:00.000Z''\<rparr>"

definition blank_state :: nlq_state where
  "blank_state =
     \<lparr>query = [CHR 32, CHR 9, CHR 10, CHR 32], queries = [old_entry], isLoading = False,
      selectedQuery = None\<rparr>"

definition typing_state :: nlq_state where
  "typing_state =
     \<lparr>query = '' avg age '', queries = [old_entry], isLoading = False,
      selectedQuery = None\<rparr>"

definition example_pending :: pending where
  "example_pending = \<lparr>pending_id = 42, pending_query = '' avg age ''\<rparr>"

section \<open>The statistical estimator\<close>

text \<open>
  Modelled from the spec: the function \<open>estimate\<close> of the statistical analysis service.
  The sources hold only the documentation of its endpoint
  (\<open>POST /api/ml/statistical-analysis\<close>), not its code, so the definitions of this
  section follow sections 3 and 4.4 of the specification. Where the specification
  leaves a choice open, the choice made is said at the definition.
\<close>

datatype response_value = NumberValue real | TextValue string

record response =
  response_id :: nat
  surveyId :: nat
  response_data :: "(string \<times> response_value) list"
  isComplete :: bool
  completionTimeSeconds :: nat
  createdAt :: string

datatype design_method = NoDesign | Stratified

record sampling_design =
  design_method :: design_method
  stratifyBy :: "string option"
  populationProportions :: "(response_value \<times> real) list"

text \<open>
  Modelled from the spec: the numbers the estimator computes with. The specification
  asks for results that are finite and not NaN, so a computed number is either a finite
  number or \<open>NonFinite\<close>, the result of an operation that has no finite result: a
  division by 0 (NaN for 0 / 0 and an infinity otherwise in floating-point arithmetic,
  an exception elsewhere) or the root of a negative number. An operation on a
  \<open>NonFinite\<close> operand is \<open>NonFinite\<close>. Rounding and overflow are not modelled: the
  operations on finite numbers are exact.
\<close>

datatype fnum = Finite real | NonFinite

fun fnum_add :: "fnum \<Rightarrow> fnum \<Rightarrow> fnum" where
  "fnum_add (Finite a) (Finite b) = Finite (a + b)"
| "fnum_add a b = NonFinite"

fun fnum_sub :: "fnum \<Rightarrow> fnum \<Rightarrow> fnum" where
  "fnum_sub (Finite a) (Finite b) = Finite (a - b)"
| "fnum_sub a b = NonFinite"

fun fnum_mul :: "fnum \<Rightarrow> fnum \<Rightarrow> fnum" where
  "fnum_mul (Finite a) (Finite b) = Finite (a * b)"
| "fnum_mul a b = NonFinite"

fun fnum_div :: "fnum \<Rightarrow> fnum \<Rightarrow> fnum" where
  "fnum_div (Finite a) (Finite b) = (if b = 0 then NonFinite else Finite (a / b))"
| "fnum_div a b = NonFinite"

fun fnum_sqrt :: "fnum \<Rightarrow> fnum" where
  "fnum_sqrt (Finite a) = (if a < 0 then NonFinite else Finite (sqrt a))"
| "fnum_sqrt NonFinite = NonFinite"

definition fnum_square :: "fnum \<Rightarrow> fnum" where
  "fnum_square a = fnum_mul a a"

definition fnum_sum :: "fnum list \<Rightarrow> fnum" where
  "fnum_sum xs = foldr fnum_add xs (Finite 0)"

record estimation_result =
  estimate_mean :: fnum
  interval_low :: fnum
  interval_high :: fnum
  standardError :: fnum
  sampleSize :: nat
  effectiveSampleSize :: "fnum option"
  designEffect :: "fnum option"

datatype estimate_error = InsufficientDataError | InvalidDesignError

text \<open>The configured constants: the \<open>z\<close> of the confidence level (about 1.96 for 95
  percent) and the tolerance on the sum of the population proportions.\<close>

record estimator_config =
  z_value :: real
  tolerance :: real

text \<open>
  Step 1: the value of the target field as a number. A number is taken as it is; a text
  value is not coercible (the specification fixes no scale for ordered categories) and
  the response is left out of the denominator, as is a response without the field.
\<close>

definition coerce :: "response_value \<Rightarrow> real option" where
  "coerce v = (case v of NumberValue x \<Rightarrow> Some x | TextValue t \<Rightarrow> None)"

definition target_value :: "string \<Rightarrow> response \<Rightarrow> real option" where
  "target_value targetField r =
     (case map_of (response_data r) targetField of None \<Rightarrow> None | Some v \<Rightarrow> coerce v)"

definition mean_of :: "real list \<Rightarrow> fnum" where
  "mean_of xs = fnum_div (Finite (sum_list xs)) (Finite (real (length xs)))"

text \<open>
  \<open>variance_formula\<close> is the sample variance as the formula gives it: the sum of the
  squared deviations from the mean over \<open>n - 1\<close>. For one observation it divides 0 by
  0. Step 4 states the policy for that case: the variance of a stratum with one
  respondent is taken as 0, and \<open>sample_variance\<close> is the formula with this policy.
  The model applies it wherever a sample variance is taken, the whole sample of step 2
  included.
\<close>

definition variance_formula :: "real list \<Rightarrow> fnum" where
  "variance_formula xs =
     fnum_div (fnum_sum (map (\<lambda>x. fnum_square (fnum_sub (Finite x) (mean_of xs))) xs))
       (Finite (real (length xs) - 1))"

definition sample_variance :: "real list \<Rightarrow> fnum" where
  "sample_variance xs = (if length xs = 1 then Finite 0 else variance_formula xs)"

definition interval_result ::
  "estimator_config \<Rightarrow> fnum \<Rightarrow> fnum \<Rightarrow> nat \<Rightarrow> fnum option \<Rightarrow> fnum option
   \<Rightarrow> estimation_result" where
  "interval_result cfg m se n ess deff =
     \<lparr>estimate_mean = m,
      interval_low = fnum_sub m (fnum_mul (Finite (z_value cfg)) se),
      interval_high = fnum_add m (fnum_mul (Finite (z_value cfg)) se),
      standardError = se, sampleSize = n, effectiveSampleSize = ess, designEffect = deff\<rparr>"

text \<open>Step 2, no design: the arithmetic mean, and the sample standard deviation over
  the root of the sample size. The two optional results are left out.\<close>

definition estimate_simple ::
  "estimator_config \<Rightarrow> real list \<Rightarrow> estimate_error + estimation_result" where
  "estimate_simple cfg xs =
     (if xs = [] then Inl InsufficientDataError
      else Inr (interval_result cfg (mean_of xs)
                  (fnum_div (fnum_sqrt (sample_variance xs))
                     (fnum_sqrt (Finite (real (length xs)))))
                  (length xs) None None))"

text \<open>
  Step 3, stratified design. An observation is the stratum of a response (its value of
  the \<open>stratifyBy\<close> field) with its target value; \<open>observations\<close> is \<open>None\<close> when a
  response with a target value has no value of the \<open>stratifyBy\<close> field. The strata are
  those observed. For a stratum \<open>s\<close> with proportion \<open>P s\<close>, \<open>n s\<close> observations and mean
  \<open>m s\<close>, the weight is \<open>w s = P s / (n s / N)\<close>, its share is \<open>w s * (n s / N)\<close>, and
  the mean is the sum of the shares times \<open>m s\<close> over the sum of the shares. For the
  variance the specification only names ``the design-based variance formula''; the
  model takes the usual one for a stratified mean, the sum of \<open>W s ^ 2 * v s / n s\<close> with
  \<open>W s\<close> the normalised share and \<open>v s\<close> the within-stratum sample variance. The design
  effect is this variance over the variance under simple random sampling, and the
  effective sample size is \<open>N\<close> over the design effect, as the formulas give them.
\<close>

fun observations ::
  "string \<Rightarrow> string \<Rightarrow> response list \<Rightarrow> (response_value \<times> real) list option" where
  "observations targetField stratumField [] = Some []"
| "observations targetField stratumField (r # rs) =
     (case target_value targetField r of
        None \<Rightarrow> observations targetField stratumField rs
      | Some x \<Rightarrow>
          (case map_of (response_data r) stratumField of
             None \<Rightarrow> None
           | Some s \<Rightarrow> map_option ((#) (s, x)) (observations targetField stratumField rs)))"

definition stratum_values :: "(response_value \<times> real) list \<Rightarrow> response_value \<Rightarrow> real list" where
  "stratum_values obs s = map snd (filter (\<lambda>(s', x). s' = s) obs)"

definition estimate_stratified ::
  "estimator_config \<Rightarrow> (response_value \<times> real) list \<Rightarrow> (response_value \<times> real) list
   \<Rightarrow> estimate_error + estimation_result" where
  "estimate_stratified cfg props obs =
     (let strata = remdups (map fst obs);
          N = Finite (real (length obs))
      in if obs = [] \<or> (\<exists>s \<in> set (map fst props). stratum_values obs s = [])
         then Inl InsufficientDataError
         else if \<exists>s \<in> set strata. map_of props s = None then Inl InvalidDesignError
         else
           let P = (\<lambda>s. Finite (case map_of props s of None \<Rightarrow> 0 | Some p \<Rightarrow> p));
               n = (\<lambda>s. Finite (real (length (stratum_values obs s))));
               w = (\<lambda>s. fnum_div (P s) (fnum_div (n s) N));
               share = (\<lambda>s. fnum_mul (w s) (fnum_div (n s) N));
               total = fnum_sum (map share strata);
               m = fnum_div
                     (fnum_sum (map (\<lambda>s. fnum_mul (share s) (mean_of (stratum_values obs s)))
                                  strata))
                     total;
               v = fnum_sum
                     (map (\<lambda>s. fnum_div
                                  (fnum_mul (fnum_square (fnum_div (share s) total))
                                     (sample_variance (stratum_values obs s)))
                                  (n s))
                        strata);
               srs = fnum_div (sample_variance (map snd obs)) N;
               deff = fnum_div v srs
           in Inr (interval_result cfg m (fnum_sqrt v) (length obs)
                     (Some (fnum_div N deff)) (Some deff)))"

text \<open>
  Modelled from the spec: \<open>estimate(responses, targetField, design)\<close>, whose code is
  not in the sources. It fails with \<open>InsufficientDataError\<close> when no observation is
  left, or none for a stratum of the design, and with \<open>InvalidDesignError\<close> when the
  proportions do not sum to 1 within the tolerance, when the design names no
  \<open>stratifyBy\<close> field or a response lacks it, or when an observed stratum has no
  proportion.
\<close>

definition estimate ::
  "estimator_config \<Rightarrow> response list \<Rightarrow> string \<Rightarrow> sampling_design
   \<Rightarrow> estimate_error + estimation_result" where
  "estimate cfg responses targetField design =
     (case design_method design of
        NoDesign \<Rightarrow> estimate_simple cfg (List.map_filter (target_value targetField) responses)
      | Stratified \<Rightarrow>
          (case stratifyBy design of
             None \<Rightarrow> Inl InvalidDesignError
           | Some stratumField \<Rightarrow>
               if tolerance cfg < \<bar>sum_list (map snd (populationProportions design)) - 1\<bar>
               then Inl InvalidDesignError
               else (case observations targetField stratumField responses of
                       None \<Rightarrow> Inl InvalidDesignError
                     | Some obs \<Rightarrow> estimate_stratified cfg (populationProportions design) obs)))"

text \<open>One respondent of one stratum, a design whose only stratum is that one, with a
  proportion inside the tolerance of 1, and the constants.\<close>

definition lone_response :: response where
  "lone_response =
     \<lparr>response_id = 1, surveyId = 1,
      response_data = [(''satisfaction'', NumberValue 4), (''age_group'', TextValue ''18-25'')],
      isComplete = True, completionTimeSeconds = 60, createdAt = ''2024-01-15T10:30:00Z''\<rparr>"

definition one_stratum_design :: sampling_design where
  "one_stratum_design =
     \<lparr>design_method = Stratified, stratifyBy = Some ''age_group'',
      populationProportions = [(TextValue ''18-25'', 9999999 / 10000000)]\<rparr>"

definition example_config :: estimator_config where
  "example_config = \<lparr>z_value = 196 / 100, tolerance = 1 / 1000000\<rparr>"

section \<open>The adaptive question selector\<close>

text \<open>
  Modelled from the spec: the adaptive question selector. The sources hold only the
  documentation of its endpoint (\<open>POST /api/ml/adaptive-question\<close>), not its code, so
  the definitions of this section follow sections 3, 4.5 and 9 of the specification: a
  field declares branching rules, each a predicate on the responses so far with the
  field to show next; the predicates are the tagged variants threshold (at most a
  bound, as in ``if satisfaction is at most 2''), equals and range; the static linear
  order of the survey is the order of the fields in the graph.
\<close>

datatype predicate =
    Threshold string real
  | Equals string response_value
  | RangeIn string real real

type_synonym answers = "(string \<times> response_value) list"

fun holds :: "predicate \<Rightarrow> answers \<Rightarrow> bool" where
  "holds (Threshold f b) rs =
     (case map_of rs f of Some (NumberValue x) \<Rightarrow> x \<le> b | _ \<Rightarrow> False)"
| "holds (Equals f v) rs = (map_of rs f = Some v)"
| "holds (RangeIn f lo hi) rs =
     (case map_of rs f of Some (NumberValue x) \<Rightarrow> lo \<le> x \<and> x \<le> hi | _ \<Rightarrow> False)"

record branching_rule =
  rule_predicate :: predicate
  rule_target :: string

record graph_field =
  graph_field_id :: string
  branching_rules :: "branching_rule list"

type_synonym field_graph = "graph_field list"

text \<open>The reasoning of a decision says which kind of transition was taken.\<close>

datatype reasoning = RuleMatched predicate | LinearOrder | NoFurtherField

record adaptive_decision =
  nextFieldId :: "string option"
  decision_reasoning :: reasoning
  surveyComplete :: bool

definition rules_of :: "field_graph \<Rightarrow> string \<Rightarrow> branching_rule list" where
  "rules_of g cur =
     (case find (\<lambda>f. graph_field_id f = cur) g of None \<Rightarrow> [] | Some f \<Rightarrow> branching_rules f)"

definition successor :: "field_graph \<Rightarrow> string \<Rightarrow> string option" where
  "successor g cur =
     (case dropWhile (\<lambda>f. graph_field_id f \<noteq> cur) g of
        f # n # rest \<Rightarrow> Some (graph_field_id n)
      | _ \<Rightarrow> None)"

text \<open>
  Modelled from the spec: the transition of the selector, whose code is not in the
  sources, as section 4.5 words it: the first rule, in declaration order, whose
  predicate matches gives the next field; when no rule matches, the next field of the
  linear order; when no field remains, the terminal state.
\<close>

inductive selects :: "field_graph \<Rightarrow> string \<Rightarrow> answers \<Rightarrow> adaptive_decision \<Rightarrow> bool"
  for g :: field_graph and cur :: string and rs :: answers where
  first_match:
    "rules_of g cur = earlier @ rule # later \<Longrightarrow>
     \<forall>q \<in> set earlier. \<not> holds (rule_predicate q) rs \<Longrightarrow>
     holds (rule_predicate rule) rs \<Longrightarrow>
     selects g cur rs
       \<lparr>nextFieldId = Some (rule_target rule),
        decision_reasoning = RuleMatched (rule_predicate rule), surveyComplete = False\<rparr>"
| linear_order:
    "\<forall>q \<in> set (rules_of g cur). \<not> holds (rule_predicate q) rs \<Longrightarrow>
     successor g cur = Some n \<Longrightarrow>
     selects g cur rs
       \<lparr>nextFieldId = Some n, decision_reasoning = LinearOrder, surveyComplete = False\<rparr>"
| terminal:
    "\<forall>q \<in> set (rules_of g cur). \<not> holds (rule_predicate q) rs \<Longrightarrow>
     successor g cur = None \<Longrightarrow>
     selects g cur rs
       \<lparr>nextFieldId = None, decision_reasoning = NoFurtherField, surveyComplete = True\<rparr>"

text \<open>Modelled from the spec: the same selector as a function that computes the
  decision from the graph, the current field and the responses so far.\<close>

definition select_next :: "field_graph \<Rightarrow> string \<Rightarrow> answers \<Rightarrow> adaptive_decision" where
  "select_next g cur rs =
     (case find (\<lambda>q. holds (rule_predicate q) rs) (rules_of g cur) of
        Some rule \<Rightarrow>
          \<lparr>nextFieldId = Some (rule_target rule),
           decision_reasoning = RuleMatched (rule_predicate rule), surveyComplete = False\<rparr>
      | None \<Rightarrow>
          (case successor g cur of
             Some n \<Rightarrow>
               \<lparr>nextFieldId = Some n, decision_reasoning = LinearOrder, surveyComplete = False\<rparr>
           | None \<Rightarrow>
               \<lparr>nextFieldId = None, decision_reasoning = NoFurtherField, surveyComplete = True\<rparr>))"

text \<open>A graph of three fields, the first with two rules that can both match, and a log
  of responses.\<close>

definition example_graph :: field_graph where
  "example_graph =
     [\<lparr>graph_field_id = ''satisfaction'',
       branching_rules =
         [\<lparr>rule_predicate = Threshold ''satisfaction'' 2, rule_target = ''follow_up''\<rparr>,
          \<lparr>rule_predicate = RangeIn ''satisfaction'' 1 5, rule_target = ''age_group''\<rparr>]\<rparr>,
      \<lparr>graph_field_id = ''age_group'', branching_rules = []\<rparr>,
      \<lparr>graph_field_id = ''follow_up'', branching_rules = []\<rparr>]"

definition example_log :: answers where
  "example_log = [(''satisfaction'', NumberValue 2), (''follow_up'', TextValue ''slow delivery'')]"

section \<open>Properties of the query pipeline\<close>

text \<open>Facts with which the simplifier evaluates the string functions on literals.\<close>

lemmas string_eval = toLowerCase_def lower_char_def char_of_def bit_Suc_0_iff

lemma generateMockSQL_cases:
  "generateMockSQL q = sql_avg \<or> generateMockSQL q = sql_count
   \<or> generateMockSQL q = sql_top \<or> generateMockSQL q = sql_default"
  by (simp add: generateMockSQL_def Let_def)

lemma generateMockSQL_average: "mentions_average q \<Longrightarrow> generateMockSQL q = sql_avg"
  by (simp add: generateMockSQL_def mentions_average_def)

lemma generateMockSQL_count:
  "\<not> mentions_average q \<Longrightarrow> mentions_count q \<Longrightarrow> generateMockSQL q = sql_count"
  by (simp add: generateMockSQL_def mentions_average_def mentions_count_def)

lemma generateMockSQL_top:
  "\<not> mentions_average q \<Longrightarrow> \<not> mentions_count q \<Longrightarrow> mentions_top q
   \<Longrightarrow> generateMockSQL q = sql_top"
  by (simp add: generateMockSQL_def mentions_average_def mentions_count_def mentions_top_def)

lemma generateMockSQL_default:
  "\<not> mentions_average q \<Longrightarrow> \<not> mentions_count q \<Longrightarrow> \<not> mentions_top q
   \<Longrightarrow> generateMockSQL q = sql_default"
  by (simp add: generateMockSQL_def mentions_average_def mentions_count_def mentions_top_def)

lemma sample_row_draws_differ: "sample_row draws_zero 0 \<noteq> sample_row draws_half 0"
  by (simp add: sample_row_def draws_zero_def draws_half_def)

lemma results_draws_differ:
  assumes "\<not> mentions_average q"
  shows "generateMockResults draws_zero q \<noteq> generateMockResults draws_half q"
proof (cases "mentions_count q")
  case True
  with assms show ?thesis
    by (simp add: generateMockResults_def mentions_average_def mentions_count_def
        draws_zero_def draws_half_def)
next
  case False
  have "map (sample_row draws_zero) [0..<5] \<noteq> map (sample_row draws_half) [0..<5]"
  proof
    assume "map (sample_row draws_zero) [0..<5] = map (sample_row draws_half) [0..<5]"
    then have "sample_row draws_zero 0 = sample_row draws_half 0"
      by (simp add: map_eq_conv)
    with sample_row_draws_differ show False by contradiction
  qed
  with False assms show ?thesis
    by (simp add: generateMockResults_def mentions_average_def mentions_count_def)
qed

lemma results_average_fixed:
  "mentions_average q \<Longrightarrow> generateMockResults r1 q = generateMockResults r2 q"
  by (simp add: generateMockResults_def mentions_average_def)

text \<open>
  C1 as stated: two runs of the pipeline on the same question give identical outputs.
  It fails on the results: \<open>generateMockResults\<close> calls \<open>Math.random()\<close> in its count
  branch, so two runs on the question below in which \<open>Math.random()\<close> returns 0 and one
  half return the totals 100 and 600.
\<close>

theorem C1_results_depend_on_random_draws:
  "process_query draws_zero ''How many responses were submitted last week?''
   \<noteq> process_query draws_half ''How many responses were submitted last week?''"
  by (simp add: process_query_def generateMockResults_def string_eval
      draws_zero_def draws_half_def)

text \<open>
  C1 as amended: the SQL text does not depend on the random draws, for any question; the
  results are the same for all random draws exactly when the lower-cased question
  contains ``average'' or ``avg''.
\<close>

theorem C1_determinism_of_pipeline:
  "fst (process_query r1 q) = fst (process_query r2 q)
   \<and> ((\<forall>ra rb. snd (process_query ra q) = snd (process_query rb q)) \<longleftrightarrow> mentions_average q)"
  unfolding process_query_def fst_conv snd_conv
  using results_average_fixed results_draws_differ by blast

theorem C1_determinism_of_pipeline_witness:
  "mentions_average ''Show me the average satisfaction score by age group''
   \<and> process_query draws_zero ''Show me the average satisfaction score by age group''
     = process_query draws_half ''Show me the average satisfaction score by age group''"
proof -
  have m: "mentions_average ''Show me the average satisfaction score by age group''"
    by (simp add: mentions_average_def string_eval)
  from m C1_determinism_of_pipeline
    [of draws_zero "''Show me the average satisfaction score by age group''" draws_half]
  show ?thesis
    by (simp add: prod_eq_iff)
qed







text \<open>
  C3: the text rendered for a question holds no literal copied from the question, and no
  value the user supplies is interpolated into it. The code takes no value out of the
  question, so there is none to interpolate or to bind: the text is one of the four
  fixed templates, and which one depends only on the three keyword tests. Two questions
  that agree on the tests get the same text, whatever else they say.
\<close>

theorem C3_text_depends_on_keywords_only:
  "generateMockSQL q \<in> set sql_templates
   \<and> (mentions_average q = mentions_average q' \<and> mentions_count q = mentions_count q'
        \<and> mentions_top q = mentions_top q'
        \<longrightarrow> generateMockSQL q = generateMockSQL q')"
proof
  show "generateMockSQL q \<in> set sql_templates"
    using generateMockSQL_cases [of q] by (auto simp: sql_templates_def)
  show "mentions_average q = mentions_average q' \<and> mentions_count q = mentions_count q'
        \<and> mentions_top q = mentions_top q'
        \<longrightarrow> generateMockSQL q = generateMockSQL q'"
    by (simp add: mentions_average_def mentions_count_def mentions_top_def
        generateMockSQL_def Let_def)
qed

theorem C3_text_depends_on_keywords_only_witness:
  "generateMockSQL ''How many responses have the value 5?''
   = generateMockSQL ''count the rows; DROP TABLE users''"
proof -
  have "mentions_average ''How many responses have the value 5?''
          = mentions_average ''count the rows; DROP TABLE users''"
    and "mentions_count ''How many responses have the value 5?''
          = mentions_count ''count the rows; DROP TABLE users''"
    and "mentions_top ''How many responses have the value 5?''
          = mentions_top ''count the rows; DROP TABLE users''"
    by (simp_all add: mentions_average_def mentions_count_def mentions_top_def string_eval)
  with C3_text_depends_on_keywords_only
    [of "''How many responses have the value 5?''" "''count the rows; DROP TABLE users''"]
  show ?thesis by simp
qed

lemma generateMockResults_count_length:
  "res_count (generateMockResults rnd q) = length (res_data (generateMockResults rnd q))"
  by (simp add: generateMockResults_def Let_def)

text \<open>
  C4: the source has no \<open>throw\<close>, and \<open>toLowerCase\<close> and \<open>includes\<close> are defined on every
  string, so the model has no error value. For every question the SQL generator returns
  one of the four templates and the result generator returns rows with their count; a
  question with none of the keywords, the empty string among them, gets the default
  template, which has no aggregate and no grouping.
\<close>

theorem C4_parsing_returns_for_every_input:
  "generateMockSQL q \<in> set sql_templates
   \<and> res_count (generateMockResults rnd q) = length (res_data (generateMockResults rnd q))
   \<and> (\<not> mentions_average q \<and> \<not> mentions_count q \<and> \<not> mentions_top q
        \<longrightarrow> generateMockSQL q = sql_default)
   \<and> generateMockSQL [] = sql_default
   \<and> \<not> includes_str sql_default ''AVG('' \<and> \<not> includes_str sql_default ''COUNT(''
   \<and> \<not> includes_str sql_default ''GROUP BY''"
proof -
  have "generateMockSQL q \<in> set sql_templates"
    using generateMockSQL_cases [of q] by (auto simp: sql_templates_def)
  moreover have "generateMockSQL [] = sql_default"
    by (simp add: generateMockSQL_def toLowerCase_def)
  moreover have "\<not> includes_str sql_default ''AVG('' \<and> \<not> includes_str sql_default ''COUNT(''
   \<and> \<not> includes_str sql_default ''GROUP BY''"
    by (simp add: sql_default_def)
  ultimately show ?thesis
    using generateMockSQL_default [of q] generateMockResults_count_length [of rnd q]
    by simp
qed

theorem C4_parsing_returns_for_every_input_witness:
  "generateMockSQL '')(*&^%$ ;; select from where'' = sql_default"
proof -
  have "\<not> mentions_average '')(*&^%$ ;; select from where''"
    and "\<not> mentions_count '')(*&^%$ ;; select from where''"
    and "\<not> mentions_top '')(*&^%$ ;; select from where''"
    by (simp_all add: mentions_average_def mentions_count_def mentions_top_def string_eval)
  with C4_parsing_returns_for_every_input [of "'')(*&^%$ ;; select from where''" draws_zero]
  show ?thesis by simp
qed

lemma example_question_sql:
  "generateMockSQL ''What is the average satisfaction rating by age group?'' = sql_avg"
  by (simp add: generateMockSQL_def string_eval)

lemma country_question_sql:
  "generateMockSQL ''Which country has the most responses?'' = sql_count"
  by (simp add: generateMockSQL_def string_eval)

lemma country_question_top: "mentions_top ''Which country has the most responses?''"
  by (simp add: mentions_top_def string_eval)

lemma sql_avg_fields:
  "\<not> includes_str sql_avg ''satisfaction'' \<and> \<not> includes_str sql_avg ''age_group''"
  by (simp add: sql_avg_def)

lemma sql_count_not_top: "sql_count \<noteq> sql_top"
  by (simp add: sql_count_def sql_top_def)

lemma sql_shapes:
  "includes_str sql_avg ''AVG(score)'' \<and> includes_str sql_avg ''GROUP BY category''
   \<and> includes_str sql_count ''SELECT COUNT(*)''
   \<and> includes_str sql_top ''COUNT(*)'' \<and> includes_str sql_top ''GROUP BY item''
   \<and> includes_str sql_top ''ORDER BY frequency DESC LIMIT 5''"
  by (simp add: sql_avg_def sql_count_def sql_top_def)

text \<open>
  C5 as stated fails twice. The example question gets the fixed average template, which
  names neither ``satisfaction'' nor ``age_group'' (and the code computes no
  confidence). And a question with ``most'' does not get the top template when it also
  has a count keyword: ``country'' contains ``count''.
\<close>

theorem C5_example_question_counterexample:
  "generateMockSQL ''What is the average satisfaction rating by age group?'' = sql_avg
   \<and> \<not> includes_str sql_avg ''satisfaction''
   \<and> \<not> includes_str sql_avg ''age_group''
   \<and> mentions_top ''Which country has the most responses?''
   \<and> generateMockSQL ''Which country has the most responses?'' = sql_count
   \<and> sql_count \<noteq> sql_top"
  using example_question_sql country_question_sql country_question_top sql_avg_fields
    sql_count_not_top
  by simp

text \<open>
  C5 as amended: the keyword tests are tried in the order average, count, top, and the
  first that holds picks the template: the average of \<open>score\<close> grouped by \<open>category\<close>;
  a count; a count grouped by \<open>item\<close>, ordered and limited to 5; otherwise the default
  template.
\<close>

theorem C5_keyword_branches:
  "(mentions_average q \<longrightarrow> generateMockSQL q = sql_avg)
   \<and> (\<not> mentions_average q \<and> mentions_count q \<longrightarrow> generateMockSQL q = sql_count)
   \<and> (\<not> mentions_average q \<and> \<not> mentions_count q \<and> mentions_top q
        \<longrightarrow> generateMockSQL q = sql_top)
   \<and> (\<not> mentions_average q \<and> \<not> mentions_count q \<and> \<not> mentions_top q
        \<longrightarrow> generateMockSQL q = sql_default)
   \<and> includes_str sql_avg ''AVG(score)'' \<and> includes_str sql_avg ''GROUP BY category''
   \<and> includes_str sql_count ''SELECT COUNT(*)''
   \<and> includes_str sql_top ''COUNT(*)'' \<and> includes_str sql_top ''GROUP BY item''
   \<and> includes_str sql_top ''ORDER BY frequency DESC LIMIT 5''"
  using generateMockSQL_average [of q] generateMockSQL_count [of q]
    generateMockSQL_top [of q] generateMockSQL_default [of q] sql_shapes
  by simp

theorem C5_keyword_branches_witness:
  "generateMockSQL ''What is the average satisfaction rating by age group?'' = sql_avg
   \<and> generateMockSQL ''What are the top 3 most common complaints?'' = sql_top"
proof -
  have a: "mentions_average ''What is the average satisfaction rating by age group?''"
    by (simp add: mentions_average_def string_eval)
  have t: "\<not> mentions_average ''What are the top 3 most common complaints?''
      \<and> \<not> mentions_count ''What are the top 3 most common complaints?''
      \<and> mentions_top ''What are the top 3 most common complaints?''"
    by (simp add: mentions_average_def mentions_count_def mentions_top_def string_eval)
  from a C5_keyword_branches [of "''What is the average satisfaction rating by age group?''"]
  have "generateMockSQL ''What is the average satisfaction rating by age group?'' = sql_avg"
    by simp
  moreover from t C5_keyword_branches [of "''What are the top 3 most common complaints?''"]
  have "generateMockSQL ''What are the top 3 most common complaints?'' = sql_top"
    by simp
  ultimately show ?thesis by simp
qed

section \<open>Properties of the query history\<close>

lemma trim_blank: "(trim s = []) = (\<forall>c \<in> set s. is_space c)"
proof
  assume "trim s = []"
  then have "dropWhile is_space (rev (dropWhile is_space s)) = []"
    by (simp add: trim_def)
  then have "\<forall>c \<in> set (rev (dropWhile is_space s)). is_space c"
    by (simp add: dropWhile_eq_Nil_conv)
  then have "\<forall>c \<in> set (dropWhile is_space s). is_space c"
    by simp
  then have "dropWhile is_space s = []"
    by (metis hd_dropWhile list.set_sel(1))
  then show "\<forall>c \<in> set s. is_space c"
    by (simp add: dropWhile_eq_Nil_conv)
next
  assume "\<forall>c \<in> set s. is_space c"
  then show "trim s = []"
    by (auto simp: trim_def dest: set_dropWhileD)
qed

text \<open>
  C8: when the input is empty or holds only white space, the first part of
  \<open>handleSubmit\<close> returns the state as it was (the history, the loading flag, the input
  and the selection) and leaves nothing pending, so no second part runs.
\<close>

theorem C8_blank_submit_changes_nothing:
  "\<forall>c \<in> set (query st). is_space c \<Longrightarrow> handleSubmit_start clk st = (st, None)"
  by (simp add: handleSubmit_start_def trim_blank)

theorem C8_blank_submit_changes_nothing_witness:
  "list_all is_space (query blank_state)
   \<and> handleSubmit_start example_clock blank_state = (blank_state, None)"
proof -
  have b: "\<forall>c \<in> set (query blank_state). is_space c"
    by (simp add: blank_state_def is_space_def)
  from b C8_blank_submit_changes_nothing [OF b] show ?thesis
    by (simp add: list_all_iff)
qed

text \<open>
  C9: a submission with a non-blank input puts the new entry, with the clock reading as
  its id, in front of the history and keeps the old entries behind it. When it completes
  or fails, the history keeps its length and the ids in their places, every entry whose
  id differs from the id of the submission is kept as it is, and every entry with that id
  gains the SQL, the results and the status ``completed'', or the status ``failed'' and
  the error text.
\<close>

theorem C9_history_update_isolation:
  "(trim (query st) \<noteq> [] \<longrightarrow>
      queries (fst (handleSubmit_start clk st)) = newQuery clk (query st) # queries st
      \<and> entry_id (newQuery clk (query st)) = date_now clk
      \<and> map_option pending_id (snd (handleSubmit_start clk st)) = Some (date_now clk))
   \<and> length (queries (handleSubmit_finish rnd outcome p st')) = length (queries st')
   \<and> map entry_id (queries (handleSubmit_finish rnd outcome p st')) = map entry_id (queries st')
   \<and> (\<forall>i < length (queries st').
         queries (handleSubmit_finish rnd outcome p st') ! i =
           (if entry_id (queries st' ! i) \<noteq> pending_id p then queries st' ! i
            else (case outcome of
                    Resolved \<Rightarrow> (queries st' ! i)
                      \<lparr>entry_sql := Some (generateMockSQL (pending_query p)),
                       entry_results := Some (generateMockResults rnd (pending_query p)),
                       entry_status := ''completed''\<rparr>
                  | Rejected \<Rightarrow> (queries st' ! i)
                      \<lparr>entry_status := ''failed'',
                       entry_error := Some ''Failed to process query''\<rparr>)))"
proof (intro conjI impI allI)
  assume "trim (query st) \<noteq> []"
  then show "queries (fst (handleSubmit_start clk st)) = newQuery clk (query st) # queries st"
    by (simp add: handleSubmit_start_def)
  show "entry_id (newQuery clk (query st)) = date_now clk"
    by (simp add: newQuery_def)
  from \<open>trim (query st) \<noteq> []\<close>
  show "map_option pending_id (snd (handleSubmit_start clk st)) = Some (date_now clk)"
    by (simp add: handleSubmit_start_def)
next
  show "length (queries (handleSubmit_finish rnd outcome p st')) = length (queries st')"
    by (cases outcome) (simp_all add: handleSubmit_finish_def Let_def)
  show "map entry_id (queries (handleSubmit_finish rnd outcome p st')) = map entry_id (queries st')"
    by (cases outcome)
      (simp_all add: handleSubmit_finish_def Let_def complete_entry_def fail_entry_def)
next
  fix i
  assume "i < length (queries st')"
  then show "queries (handleSubmit_finish rnd outcome p st') ! i =
           (if entry_id (queries st' ! i) \<noteq> pending_id p then queries st' ! i
            else (case outcome of
                    Resolved \<Rightarrow> (queries st' ! i)
                      \<lparr>entry_sql := Some (generateMockSQL (pending_query p)),
                       entry_results := Some (generateMockResults rnd (pending_query p)),
                       entry_status := ''completed''\<rparr>
                  | Rejected \<Rightarrow> (queries st' ! i)
                      \<lparr>entry_status := ''failed'',
                       entry_error := Some ''Failed to process query''\<rparr>))"
    by (cases outcome)
      (simp_all add: handleSubmit_finish_def Let_def complete_entry_def fail_entry_def)
qed

theorem C9_history_update_isolation_witness:
  "trim (query typing_state) \<noteq> []
   \<and> queries (fst (handleSubmit_start example_clock typing_state))
       = [newQuery example_clock (query typing_state), old_entry]
   \<and> queries (handleSubmit_finish draws_zero Resolved example_pending
        (fst (handleSubmit_start example_clock typing_state))) ! 1 = old_entry
   \<and> entry_status (queries (handleSubmit_finish draws_zero Resolved example_pending
        (fst (handleSubmit_start example_clock typing_state))) ! 0) = ''completed''"
proof -
  let ?st = "fst (handleSubmit_start example_clock typing_state)"
  have t: "trim (query typing_state) \<noteq> []"
    by (simp add: typing_state_def trim_def is_space_def)
  note inst = C9_history_update_isolation
    [of typing_state example_clock draws_zero Resolved example_pending ?st]
  from t inst have q: "queries ?st = [newQuery example_clock (query typing_state), old_entry]"
    by (simp add: typing_state_def)
  have frame: "\<forall>i < length (queries ?st).
         queries (handleSubmit_finish draws_zero Resolved example_pending ?st) ! i =
           (if entry_id (queries ?st ! i) \<noteq> pending_id example_pending then queries ?st ! i
            else (queries ?st ! i)
                      \<lparr>entry_sql := Some (generateMockSQL (pending_query example_pending)),
                       entry_results := Some (generateMockResults draws_zero (pending_query example_pending)),
                       entry_status := ''completed''\<rparr>)"
    using inst by simp
  have "queries (handleSubmit_finish draws_zero Resolved example_pending ?st) ! 1 = old_entry"
    using frame [rule_format, of 1] q
    by (simp add: old_entry_def example_pending_def)
  moreover have "entry_status (queries (handleSubmit_finish draws_zero Resolved example_pending ?st) ! 0)
      = ''completed''"
    using frame [rule_format, of 0] q
    by (simp add: newQuery_def example_clock_def example_pending_def)
  ultimately show ?thesis using t q by simp
qed

section \<open>Properties of the survey builder\<close>

lemma field_ok_merge:
  "field_ok f \<Longrightarrow> updates_options u \<noteq> Some [] \<Longrightarrow> field_ok (merge_field f u)"
  by (cases "updates_options u") (auto simp: field_ok_def merge_field_def)

lemma updateField_inv:
  "builder_inv fs \<Longrightarrow> updates_options u \<noteq> Some [] \<Longrightarrow> builder_inv (updateField fieldId u fs)"
  by (induction fs) (simp_all add: builder_inv_def updateField_def field_ok_merge)

lemma find_field_ok: "builder_inv fs \<Longrightarrow> find P fs = Some f \<Longrightarrow> field_ok f"
  by (induction fs) (auto simp: builder_inv_def split: if_splits)

lemma found_options_nonempty:
  "builder_inv fs \<Longrightarrow> find P fs = Some f \<Longrightarrow> field_options f = Some os \<Longrightarrow> os \<noteq> []"
  using find_field_ok [of fs P f] by (auto simp: field_ok_def)

lemma addOption_inv: "builder_inv fs \<Longrightarrow> builder_inv (addOption fieldId fs)"
  by (auto simp: addOption_def no_updates_def updateField_inv split: option.splits)

lemma updateOption_inv:
  assumes "builder_inv fs"
  shows "builder_inv (updateOption fieldId k u fs)"
proof (cases "find (\<lambda>f. field_id f = fieldId) fs")
  case None
  with assms show ?thesis by (simp add: updateOption_def)
next
  case (Some f)
  show ?thesis
  proof (cases "field_options f")
    case None
    with Some assms show ?thesis by (simp add: updateOption_def)
  next
    case (Some os)
    with \<open>find (\<lambda>f. field_id f = fieldId) fs = Some f\<close> assms have "os \<noteq> []"
      by (rule_tac found_options_nonempty)
    then have "map (\<lambda>(i, opt). if i = k then merge_option opt u else opt) (enumerate 0 os) \<noteq> []"
      by (cases os) simp_all
    with Some \<open>find (\<lambda>f. field_id f = fieldId) fs = Some f\<close> assms show ?thesis
      by (simp add: updateOption_def no_updates_def updateField_inv)
  qed
qed

lemma remove_index_nonempty:
  assumes "1 < length os"
  shows "map snd (filter (\<lambda>(i, opt). i \<noteq> k) (enumerate 0 os)) \<noteq> []"
proof -
  have "\<exists>j. j < length os \<and> j \<noteq> k"
  proof (cases "k = 0")
    case True
    with assms have "1 < length os \<and> 1 \<noteq> k" by simp
    then show ?thesis by blast
  next
    case False
    moreover from assms have "0 < length os" by arith
    ultimately have "0 < length os \<and> 0 \<noteq> k" by blast
    then show ?thesis by blast
  qed
  then obtain j where j: "j < length os" "j \<noteq> k" by blast
  then have "(j, os ! j) \<in> set (filter (\<lambda>(i, opt). i \<noteq> k) (enumerate 0 os))"
    by (simp add: in_set_enumerate_eq)
  then show ?thesis
    by (auto simp: filter_empty_conv)
qed

lemma removeOption_inv:
  assumes "builder_inv fs"
  shows "builder_inv (removeOption fieldId k fs)"
proof (cases "find (\<lambda>f. field_id f = fieldId) fs")
  case None
  with assms show ?thesis by (simp add: removeOption_def)
next
  case (Some f)
  show ?thesis
  proof (cases "field_options f")
    case None
    with Some assms show ?thesis by (simp add: removeOption_def)
  next
    case (Some os)
    note found = \<open>find (\<lambda>f. field_id f = fieldId) fs = Some f\<close>
    show ?thesis
    proof (cases "1 < length os")
      case True
      let ?u = "no_updates\<lparr>updates_options :=
                  Some (map snd (filter (\<lambda>(i, opt). i \<noteq> k) (enumerate 0 os)))\<rparr>"
      from True have "updates_options ?u \<noteq> Some []"
        using remove_index_nonempty [of os k] by simp
      with assms have "builder_inv (updateField fieldId ?u fs)"
        by (rule updateField_inv)
      with True Some found show ?thesis
        by (simp add: removeOption_def)
    next
      case False
      with Some found assms show ?thesis
        by (simp add: removeOption_def)
    qed
  qed
qed

lemma newField_ok: "field_ok (newField t now)"
  by (simp add: field_ok_def newField_def option_bearing_def)

lemma splice_insert_inv:
  "field_ok f \<Longrightarrow> builder_inv fs \<Longrightarrow> builder_inv (splice_insert i f fs)"
  by (auto simp: builder_inv_def splice_insert_def list_all_iff dest: in_set_takeD in_set_dropD)

lemma handleDragEnd_inv:
  assumes "builder_inv fs" and "handleDragEnd result now fs = Inr fs'"
  shows "builder_inv fs'"
proof (cases "destination result")
  case None
  with assms show ?thesis by (simp add: handleDragEnd_def)
next
  case (Some dest)
  let ?i = "index (source result)"
  have moved: "?i < length fs \<Longrightarrow>
      builder_inv (splice_insert (index dest) (fs ! ?i) (take ?i fs @ drop (Suc ?i) fs))"
  proof -
    assume "?i < length fs"
    with assms(1) have "field_ok (fs ! ?i)"
      by (simp add: builder_inv_def list_all_length)
    moreover from assms(1) have "builder_inv (take ?i fs @ drop (Suc ?i) fs)"
      by (auto simp: builder_inv_def list_all_iff dest: in_set_takeD in_set_dropD)
    ultimately show ?thesis by (rule splice_insert_inv)
  qed
  from assms Some moved show ?thesis
    by (auto simp: handleDragEnd_def newField_ok splice_insert_inv split: if_splits)
qed

lemma deleteField_inv:
  "builder_inv (builder_fields st) \<Longrightarrow> builder_inv (builder_fields (deleteField fieldId st))"
  by (simp add: deleteField_def builder_inv_def list_all_iff)

lemma builder_step_inv:
  assumes "builder_inv (builder_fields st)" and "builder_step e st = Inr st'"
  shows "builder_inv (builder_fields st')"
proof (cases e)
  case (DragEnd result now)
  with assms(2) obtain fs where "handleDragEnd result now (builder_fields st) = Inr fs"
    and "st' = st\<lparr>builder_fields := fs\<rparr>"
    by (auto split: sum.splits)
  with assms(1) show ?thesis
    using handleDragEnd_inv [of "builder_fields st" result now fs] by simp
next
  case (ClickField i)
  with assms show ?thesis by (auto split: if_splits)
next
  case (SetLabel fieldId l)
  with assms show ?thesis by (auto simp: updateField_inv no_updates_def)
next
  case (SetRequired fieldId r)
  with assms show ?thesis by (auto simp: updateField_inv no_updates_def)
next
  case (SetValidation fieldId v)
  with assms show ?thesis by (auto simp: updateField_inv no_updates_def)
next
  case (DeleteField fieldId)
  with assms show ?thesis by (auto simp: deleteField_inv)
next
  case (AddOption fieldId)
  with assms show ?thesis by (auto simp: addOption_inv)
next
  case (UpdateOption fieldId i u)
  with assms show ?thesis by (auto simp: updateOption_inv)
next
  case (RemoveOption fieldId i)
  with assms show ?thesis by (auto simp: removeOption_inv)
qed

lemma run_events_inv:
  "builder_inv (builder_fields st) \<Longrightarrow> run_events evs st = Inr st'
   \<Longrightarrow> builder_inv (builder_fields st')"
proof (induction evs arbitrary: st)
  case Nil
  then show ?case by simp
next
  case (Cons e es)
  from Cons.prems(2) obtain st1 where s1: "builder_step e st = Inr st1"
    and s2: "run_events es st1 = Inr st'"
    by (cases "builder_step e st") simp_all
  from Cons.prems(1) s1 have "builder_inv (builder_fields st1)"
    by (rule builder_step_inv)
  then show ?case using s2 by (rule Cons.IH)
qed

lemma inv_has_an_option:
  "builder_inv fs \<Longrightarrow> f \<in> set fs \<Longrightarrow> option_bearing (field_type f) \<Longrightarrow> has_an_option f"
  by (cases "field_options f")
    (auto simp: builder_inv_def list_all_iff field_ok_def has_an_option_def Suc_le_eq)

lemma builder_step_fails:
  "builder_step e st = Inl x \<Longrightarrow>
     (\<exists>result now dest. e = DragEnd result now \<and> destination result = Some dest
        \<and> droppableId dest = ''survey-fields''
        \<and> (if droppableId (source result) = ''field-types''
            then length FIELD_TYPES \<le> index (source result)
            else droppableId (source result) = ''survey-fields''
                 \<and> length (builder_fields st) \<le> index (source result)))"
  by (cases e) (auto simp: handleDragEnd_def split: sum.splits option.splits if_splits)

lemma newField_options:
  "field_options (newField t now) =
     (if option_bearing (palette_type t)
      then Some [\<lparr>option_value = ''option1'', option_label = ''Option 1''\<rparr>] else None)"
  by (simp add: newField_def option_bearing_def)

lemma addOption_grows:
  assumes "find (\<lambda>f. field_id f = fieldId) fs = Some f" and "field_options f = Some os"
    and "g \<in> set (addOption fieldId fs)" and "field_id g = fieldId"
  shows "map_option length (field_options g) = Some (length os + 1)"
proof -
  let ?new = "\<lparr>option_value = ''option'' @ show_nat (length os + 1),
               option_label = ''Option '' @ show_nat (length os + 1)\<rparr>"
  let ?u = "no_updates\<lparr>updates_options := Some (os @ [?new])\<rparr>"
  from assms(1,2) have "addOption fieldId fs = updateField fieldId ?u fs"
    by (simp add: addOption_def)
  with assms(3) obtain f' where f': "f' \<in> set fs"
    and g: "g = (if field_id f' = fieldId then merge_field f' ?u else f')"
    by (auto simp: updateField_def)
  show ?thesis
  proof (cases "field_id f' = fieldId")
    case True
    with g have "field_options g = Some (os @ [?new])"
      by (simp add: merge_field_def)
    then show ?thesis by simp
  next
    case False
    with g assms(4) show ?thesis by simp
  qed
qed

lemma removeOption_refuses:
  "find (\<lambda>f. field_id f = fieldId) fs = Some f \<Longrightarrow> field_options f = Some os
   \<Longrightarrow> length os \<le> 1 \<Longrightarrow> removeOption fieldId k fs = fs"
  by (simp add: removeOption_def)

text \<open>
  C10: a field made from the palette has exactly one option when its type is select,
  radio or checkbox (and no option list otherwise); \<open>addOption\<close> gives the fields with
  the id the option list of the field it found, longer by one; \<open>removeOption\<close> changes
  nothing when the field it found has at most one option; and when no field has an
  empty option list and every select, radio and checkbox field has an option list, then
  after any sequence of builder operations every select, radio and checkbox field has at
  least one option. The empty builder is such a start.
\<close>

theorem C10_option_count_invariant:
  "field_options (newField t now) =
     (if option_bearing (palette_type t)
      then Some [\<lparr>option_value = ''option1'', option_label = ''Option 1''\<rparr>] else None)
   \<and> (find (\<lambda>f. field_id f = fieldId) fs = Some f \<and> field_options f = Some os \<longrightarrow>
        (\<forall>g \<in> set (addOption fieldId fs).
           field_id g = fieldId \<longrightarrow> map_option length (field_options g) = Some (length os + 1)))
   \<and> (find (\<lambda>f. field_id f = fieldId) fs = Some f \<and> field_options f = Some os
        \<and> length os \<le> 1 \<longrightarrow> removeOption fieldId k fs = fs)
   \<and> (builder_inv (builder_fields st) \<and> run_events evs st = Inr st' \<longrightarrow>
        (\<forall>g \<in> set (builder_fields st'). option_bearing (field_type g) \<longrightarrow> has_an_option g))"
proof (intro conjI impI ballI)
  show "field_options (newField t now) =
     (if option_bearing (palette_type t)
      then Some [\<lparr>option_value = ''option1'', option_label = ''Option 1''\<rparr>] else None)"
    by (rule newField_options)
next
  fix g
  assume "find (\<lambda>f. field_id f = fieldId) fs = Some f \<and> field_options f = Some os"
    and "g \<in> set (addOption fieldId fs)" and "field_id g = fieldId"
  then show "map_option length (field_options g) = Some (length os + 1)"
    using addOption_grows [of fieldId fs f os g] by simp
next
  assume "find (\<lambda>f. field_id f = fieldId) fs = Some f \<and> field_options f = Some os
        \<and> length os \<le> 1"
  then show "removeOption fieldId k fs = fs"
    using removeOption_refuses [of fieldId fs f os k] by simp
next
  fix g
  assume "builder_inv (builder_fields st) \<and> run_events evs st = Inr st'"
  then have "builder_inv (builder_fields st')"
    using run_events_inv [of st evs st'] by simp
  moreover assume "g \<in> set (builder_fields st')" and "option_bearing (field_type g)"
  ultimately show "has_an_option g"
    by (rule inv_has_an_option)
qed

theorem C10_option_count_invariant_witness:
  "builder_inv (builder_fields empty_builder)
   \<and> run_events example_events empty_builder = Inr example_result
   \<and> list_all has_an_option (builder_fields example_result)"
proof -
  have i: "builder_inv (builder_fields empty_builder)"
    by (simp add: empty_builder_def builder_inv_def)
  have r: "run_events example_events empty_builder = Inr example_result"
    by code_simp
  from i r C10_option_count_invariant
    [where st = empty_builder and evs = example_events and st' = example_result]
  have "\<forall>g \<in> set (builder_fields example_result).
          option_bearing (field_type g) \<longrightarrow> has_an_option g"
    by simp
  then have "list_all has_an_option (builder_fields example_result)"
    by (simp add: example_result_def option_bearing_def)
  with i r show ?thesis by simp
qed

section \<open>Properties of the estimator and the selector\<close>

lemma mean_of_single: "mean_of [x] = Finite x"
  by (simp add: mean_of_def)

lemma sample_variance_single: "sample_variance [x] = Finite 0"
  by (simp add: sample_variance_def)

text \<open>Without the policy of step 4 the variance of one observation is not a finite
  number, and neither is the standard error computed from it.\<close>

lemma variance_formula_single: "variance_formula [x] = NonFinite"
  by (simp add: variance_formula_def mean_of_single fnum_sum_def fnum_square_def)

lemma standard_error_without_policy:
  "fnum_div (fnum_sqrt (variance_formula [x])) (fnum_sqrt (Finite (real (length [x]))))
   = NonFinite"
  by (simp add: variance_formula_single)

lemma estimate_simple_single:
  "estimate_simple cfg [x] = Inr (interval_result cfg (Finite x) (Finite 0) 1 None None)"
  by (simp add: estimate_simple_def mean_of_single sample_variance_single)

text \<open>For the design effect and the effective sample size of one respondent the
  formulas divide by the variance under simple random sampling, which is 0; the
  specification states no policy for them.\<close>

lemma estimate_stratified_single:
  assumes "p \<noteq> 0"
  shows "estimate_stratified cfg [(s, p)] [(s, x)]
           = Inr (interval_result cfg (Finite x) (Finite 0) 1 (Some NonFinite) (Some NonFinite))"
  using assms
  by (simp add: estimate_stratified_def stratum_values_def mean_of_single
      sample_variance_single fnum_sum_def fnum_square_def Let_def)

text \<open>
  C6: for one respondent whose target value is the number \<open>x\<close>, under no design or
  under a stratified design whose only stratum is the respondent's, with a positive
  proportion within the tolerance of 1, \<open>estimate\<close> returns a result (no error) whose
  standard error is the finite number 0, whose sample size is 1, and whose mean and
  confidence bounds are all the finite number \<open>x\<close>.
\<close>

theorem C6_single_respondent:
  assumes "target_value targetField r = Some x"
    and "design_method design = NoDesign
         \<or> (design_method design = Stratified \<and> stratifyBy design = Some stratumField
             \<and> map_of (response_data r) stratumField = Some s
             \<and> populationProportions design = [(s, p)]
             \<and> 0 < p \<and> \<bar>p - 1\<bar> \<le> tolerance cfg)"
  shows "\<exists>res. estimate cfg [r] targetField design = Inr res
           \<and> standardError res = Finite 0 \<and> estimate_mean res = Finite x
           \<and> interval_low res = Finite x \<and> interval_high res = Finite x
           \<and> sampleSize res = 1"
proof (cases "design_method design")
  case NoDesign
  with assms(1) have "estimate cfg [r] targetField design
      = Inr (interval_result cfg (Finite x) (Finite 0) 1 None None)"
    by (simp add: estimate_def List.map_filter_simps estimate_simple_single)
  then show ?thesis
    by (simp add: interval_result_def)
next
  case Stratified
  with assms(2) have d: "stratifyBy design = Some stratumField"
    "map_of (response_data r) stratumField = Some s"
    "populationProportions design = [(s, p)]" "0 < p" "\<bar>p - 1\<bar> \<le> tolerance cfg"
    by simp_all
  from d(4) have "p \<noteq> 0" by simp
  then have "estimate_stratified cfg [(s, p)] [(s, x)]
      = Inr (interval_result cfg (Finite x) (Finite 0) 1 (Some NonFinite) (Some NonFinite))"
    by (rule estimate_stratified_single)
  with Stratified d assms(1) have "estimate cfg [r] targetField design
      = Inr (interval_result cfg (Finite x) (Finite 0) 1 (Some NonFinite) (Some NonFinite))"
    by (simp add: estimate_def)
  then show ?thesis
    by (simp add: interval_result_def)
qed

theorem C6_single_respondent_witness:
  "\<exists>res. estimate example_config [lone_response] ''satisfaction'' one_stratum_design = Inr res
           \<and> standardError res = Finite 0 \<and> estimate_mean res = Finite 4
           \<and> interval_low res = Finite 4 \<and> interval_high res = Finite 4
           \<and> sampleSize res = 1"
proof -
  have t: "target_value ''satisfaction'' lone_response = Some 4"
    by (simp add: target_value_def lone_response_def coerce_def)
  have d: "design_method one_stratum_design = NoDesign
         \<or> (design_method one_stratum_design = Stratified
             \<and> stratifyBy one_stratum_design = Some ''age_group''
             \<and> map_of (response_data lone_response) ''age_group'' = Some (TextValue ''18-25'')
             \<and> populationProportions one_stratum_design
                 = [(TextValue ''18-25'', 9999999 / 10000000)]
             \<and> (0::real) < 9999999 / 10000000
             \<and> \<bar>9999999 / 10000000 - 1\<bar> \<le> tolerance example_config)"
    by (simp add: one_stratum_design_def lone_response_def example_config_def)
  from C6_single_respondent [OF t d] show ?thesis .
qed

lemma find_first_match:
  "\<forall>q \<in> set earlier. \<not> P q \<Longrightarrow> P x \<Longrightarrow> find P (earlier @ x # later) = Some x"
  by (induction earlier) simp_all

lemma find_split:
  "find P xs = Some x \<Longrightarrow> \<exists>earlier later. xs = earlier @ x # later \<and> (\<forall>q \<in> set earlier. \<not> P q) \<and> P x"
proof (induction xs)
  case Nil
  then show ?case by simp
next
  case (Cons y ys)
  show ?case
  proof (cases "P y")
    case True
    with Cons.prems have "y = x" by simp
    with True have "y # ys = [] @ x # ys \<and> (\<forall>q \<in> set []. \<not> P q) \<and> P x" by simp
    then show ?thesis by blast
  next
    case False
    with Cons.prems have "find P ys = Some x" by simp
    with Cons.IH obtain earlier later
      where "ys = earlier @ x # later" "\<forall>q \<in> set earlier. \<not> P q" "P x" by blast
    with False have "y # ys = (y # earlier) @ x # later \<and> (\<forall>q \<in> set (y # earlier). \<not> P q) \<and> P x"
      by simp
    then show ?thesis by blast
  qed
qed

lemma selects_imp_select_next: "selects g cur rs d \<Longrightarrow> d = select_next g cur rs"
proof (induction rule: selects.induct)
  case (first_match earlier rule later)
  then show ?case
    by (simp add: select_next_def find_first_match)
next
  case (linear_order n)
  then have "find (\<lambda>q. holds (rule_predicate q) rs) (rules_of g cur) = None"
    by (simp add: find_None_iff)
  with linear_order show ?case by (simp add: select_next_def)
next
  case terminal
  then have "find (\<lambda>q. holds (rule_predicate q) rs) (rules_of g cur) = None"
    by (simp add: find_None_iff)
  with terminal show ?case by (simp add: select_next_def)
qed

lemma selects_select_next: "selects g cur rs (select_next g cur rs)"
proof (cases "find (\<lambda>q. holds (rule_predicate q) rs) (rules_of g cur)")
  case None
  then have no: "\<forall>q \<in> set (rules_of g cur). \<not> holds (rule_predicate q) rs"
    by (simp add: find_None_iff)
  show ?thesis
  proof (cases "successor g cur")
    case None
    with no \<open>find (\<lambda>q. holds (rule_predicate q) rs) (rules_of g cur) = None\<close> show ?thesis
      by (simp add: select_next_def selects.terminal)
  next
    case (Some n)
    with no \<open>find (\<lambda>q. holds (rule_predicate q) rs) (rules_of g cur) = None\<close> show ?thesis
      by (simp add: select_next_def selects.linear_order)
  qed
next
  case (Some rule)
  then obtain earlier later where "rules_of g cur = earlier @ rule # later"
    and "\<forall>q \<in> set earlier. \<not> holds (rule_predicate q) rs" and "holds (rule_predicate rule) rs"
    using find_split [of "\<lambda>q. holds (rule_predicate q) rs" "rules_of g cur" rule] by blast
  then have "selects g cur rs
       \<lparr>nextFieldId = Some (rule_target rule),
        decision_reasoning = RuleMatched (rule_predicate rule), surveyComplete = False\<rparr>"
    by (rule selects.first_match)
  with Some show ?thesis by (simp add: select_next_def)
qed

text \<open>
  C7: for a field graph, a current field and a prefix of a response log, the selector
  has exactly one decision: two decisions it can make are equal, it always makes one,
  and the decision is the value of the function \<open>select_next\<close> of the graph, the
  current field and the prefix, which has no other argument.
\<close>

theorem C7_selector_replay_determinism:
  "(selects g cur (take k responses) d1 \<and> selects g cur (take k responses) d2 \<longrightarrow> d1 = d2)
   \<and> (\<exists>d. selects g cur (take k responses) d)
   \<and> (selects g cur (take k responses) d \<longleftrightarrow> d = select_next g cur (take k responses))"
  using selects_imp_select_next [of g cur "take k responses"] selects_select_next [of g cur "take k responses"]
  by blast

theorem C7_selector_replay_determinism_witness:
  "selects example_graph ''satisfaction'' (take 1 example_log)
     \<lparr>nextFieldId = Some ''follow_up'',
      decision_reasoning = RuleMatched (Threshold ''satisfaction'' 2), surveyComplete = False\<rparr>
   \<and> \<not> selects example_graph ''satisfaction'' (take 1 example_log)
     \<lparr>nextFieldId = Some ''age_group'',
      decision_reasoning = RuleMatched (RangeIn ''satisfaction'' 1 5), surveyComplete = False\<rparr>"
proof -
  have n: "select_next example_graph ''satisfaction'' (take 1 example_log) =
     \<lparr>nextFieldId = Some ''follow_up'',
      decision_reasoning = RuleMatched (Threshold ''satisfaction'' 2), surveyComplete = False\<rparr>"
    by (simp add: select_next_def rules_of_def example_graph_def example_log_def)
  note inst = C7_selector_replay_determinism [of example_graph "''satisfaction''" 1 example_log]
  from n inst [THEN conjunct2, THEN conjunct2] show ?thesis
    by simp
qed

end
